theory Spec2Isabelle
  imports Main
begin

section \<open>Python values used by the two modules\<close>

text \<open>
  Parameter values, messages and defaults are \<^verbatim>\<open>Optional[str]\<close> in the source
  (\<^verbatim>\<open>message: str = None\<close>, \<^verbatim>\<open>default: str = None\<close>): \<open>None\<close> is Python's
  \<^verbatim>\<open>None\<close>, \<open>Some s\<close> the string \<open>s\<close>.  Python's truth test makes \<^verbatim>\<open>None\<close> and the
  empty string false and every other string true; \<^verbatim>\<open>a or b\<close> evaluates to \<open>a\<close> when
  \<open>a\<close> is true and to \<open>b\<close> otherwise.
\<close>

fun truthy :: "string option \<Rightarrow> bool" where
  "truthy None = False"
| "truthy (Some s) = (s \<noteq> [])"

definition py_or :: "string option \<Rightarrow> string option \<Rightarrow> string option" where
  "py_or a b = (if truthy a then a else b)"

section \<open>errors.py: the error taxonomy\<close>

text \<open>
  An error object carries the attributes its constructors assign: \<^verbatim>\<open>name\<close>,
  \<^verbatim>\<open>message\<close> and, from \<^verbatim>\<open>DatasetFieldError\<close> downwards, \<^verbatim>\<open>field_name\<close> (absent on the
  classes above it, hence an option).  Each \<^verbatim>\<open>__init__\<close> is a total function: the
  source has no raise in them, and \<^verbatim>\<open>str.format\<close> with one or two string arguments
  splices the arguments into the text.
\<close>

record error_obj =
  name :: string
  message :: "string option"
  field_name :: "string option"

definition BadRequestError :: "string \<Rightarrow> string option \<Rightarrow> error_obj" where
  "BadRequestError nm msg =
     \<lparr>name = nm, message = py_or msg (Some ''The request was not valid''), field_name = None\<rparr>"

definition BadParameterError :: "string \<Rightarrow> string option \<Rightarrow> error_obj" where
  "BadParameterError nm msg =
     BadRequestError nm (py_or msg (Some (''The request parameter '' @ nm @ '' was not valid'')))"

definition BadDatasetError :: "string \<Rightarrow> string option \<Rightarrow> error_obj" where
  "BadDatasetError dataset_name msg =
     BadRequestError dataset_name
       (py_or msg (Some (''The input dataset '' @ dataset_name @ '' was not valid'')))"

definition DatasetFieldError :: "string \<Rightarrow> string \<Rightarrow> string option \<Rightarrow> error_obj" where
  "DatasetFieldError dataset_name fld msg =
     (BadDatasetError dataset_name
        (py_or msg (Some (''The field '' @ fld @ '' was not valid for input dataset ''
                          @ dataset_name))))
     \<lparr>field_name := Some fld\<rparr>"

definition MissingDatasetFieldError :: "string \<Rightarrow> string \<Rightarrow> string option \<Rightarrow> error_obj" where
  "MissingDatasetFieldError dataset_name fld msg =
     DatasetFieldError dataset_name fld
       (py_or msg (Some (''The field '' @ fld @ '' on input dataset '' @ dataset_name
                         @ '' is required but could not be found!'')))"

section \<open>server.py: exceptions\<close>

text \<open>
  The exceptions the two classes of \<^verbatim>\<open>server.py\<close> can meet, each carrying the argument
  it is raised with.  \<open>NamingViolation\<close> is the error of the Name Validator,
  \<open>AttributeError\<close> is what Python raises for a read of an attribute the object does
  not have, and \<open>ServiceFailure\<close> stands for whatever the body of a hosted service
  raises.
\<close>

datatype pyexn =
    NamingViolation string
  | MissingParameterError string
  | ValueError string
  | AttributeError string
  | ServiceFailure string

section \<open>server.py: the configuration context source\<close>

text \<open>
  \<^verbatim>\<open>config.parameters()\<close> returns the parameter store of the configuration.  Its class
  lives in the \<^verbatim>\<open>configuration\<close> module, so its two lookups are taken as parameters:
  \<open>get_value\<close> yields the configured string of a name (or \<^verbatim>\<open>None\<close>) and
  \<open>get_real_path_value\<close> the configured path.  Every read of the store is recorded
  in a log, so that "the store was not queried" is a statement about the log.
\<close>

record parameters_store =
  get_value :: "string \<Rightarrow> string option"
  get_real_path_value :: "string \<Rightarrow> string option"

datatype store_read = ReadValue string | ReadRealPath string

definition read_value ::
  "parameters_store \<Rightarrow> string \<Rightarrow> store_read list \<Rightarrow> string option \<times> store_read list" where
  "read_value ps nm log = (get_value ps nm, log @ [ReadValue nm])"

definition read_real_path_value ::
  "parameters_store \<Rightarrow> string \<Rightarrow> store_read list \<Rightarrow> string option \<times> store_read list" where
  "read_real_path_value ps nm log = (get_real_path_value ps nm, log @ [ReadRealPath nm])"

text \<open>
  Modelled from the spec: \<^verbatim>\<open>context_sources.NameValidator.raise_if_invalid\<close> is not among
  the source files.  The specification gives it as
  \<^verbatim>\<open>raise_if_invalid(name) -> void\<close>, failing with a naming-violation error when the
  name does not match the canonical identifier form, with no side effect.  The
  identifier form itself is the parameter \<open>valid\<close>.
\<close>

definition raise_if_invalid :: "(string \<Rightarrow> bool) \<Rightarrow> string \<Rightarrow> pyexn + unit" where
  "raise_if_invalid valid nm = (if valid nm then Inr () else Inl (NamingViolation nm))"

text \<open>
  \<^verbatim>\<open>_ServiceConfigurationServiceContextSource.get_parameter_value\<close> (lines 19 to 27):
  validate, read the store, apply \<^verbatim>\<open>or default\<close>, raise when required and still
  \<^verbatim>\<open>None\<close>.
\<close>

definition get_parameter_value ::
  "(string \<Rightarrow> bool) \<Rightarrow> parameters_store \<Rightarrow> string \<Rightarrow> bool \<Rightarrow> string option
     \<Rightarrow> store_read list \<Rightarrow> (pyexn + string option) \<times> store_read list" where
  "get_parameter_value valid ps nm required dflt log =
     (case raise_if_invalid valid nm of
        Inl e \<Rightarrow> (Inl e, log)
      | Inr _ \<Rightarrow>
          (case read_value ps nm log of
             (v, log') \<Rightarrow>
               (let val = py_or v dflt
                in if required \<and> val = None then (Inl (MissingParameterError nm), log')
                   else (Inr val, log'))))"

text \<open>
  \<^verbatim>\<open>get_parameter_real_path_value\<close> (lines 29 to 37): the same without a default.
\<close>

definition get_parameter_real_path_value ::
  "(string \<Rightarrow> bool) \<Rightarrow> parameters_store \<Rightarrow> string \<Rightarrow> bool
     \<Rightarrow> store_read list \<Rightarrow> (pyexn + string option) \<times> store_read list" where
  "get_parameter_real_path_value valid ps nm required log =
     (case raise_if_invalid valid nm of
        Inl e \<Rightarrow> (Inl e, log)
      | Inr _ \<Rightarrow>
          (case read_real_path_value ps nm log of
             (val, log') \<Rightarrow>
               (if required \<and> val = None then (Inl (MissingParameterError nm), log')
                else (Inr val, log'))))"

section \<open>server.py: building the load context source\<close>

text \<open>
  The service configuration, as far as \<^verbatim>\<open>build_load_context_source\<close> reads it: whether
  it declares parameters (\<^verbatim>\<open>has_parameters()\<close>) and its parameter store
  (\<^verbatim>\<open>parameters()\<close>).  Both methods belong to the \<^verbatim>\<open>configuration\<close> module and are
  taken as given.
\<close>

record service_configuration =
  has_parameters :: bool
  parameters :: parameters_store

text \<open>
  The three kinds of member the builder creates.  An override is a Python dict from
  names to strings; the environment source holds only its prefix and reads the process
  environment when it is asked; the configuration source keeps the store it took from
  the configuration in its constructor (line 17).
\<close>

datatype context_source =
    DictServiceContextSource "string \<Rightarrow> string option"
  | EnvironmentVariableServiceContextSource string
  | ConfigurationSource parameters_store

definition ServiceConfigurationServiceContextSource ::
  "service_configuration \<Rightarrow> context_source" where
  "ServiceConfigurationServiceContextSource config = ConfigurationSource (parameters config)"

datatype coalescing_source = CoalescingServiceContextSource (members: "context_source list")

text \<open>
  \<^verbatim>\<open>ServerInstance.build_load_context_source\<close> (lines 135 to 147).  \<open>override\<close> is
  \<open>None\<close> for Python's \<^verbatim>\<open>None\<close>; an empty dict is still an override.
\<close>

definition build_load_context_source ::
  "service_configuration \<Rightarrow> bool \<Rightarrow> (string \<Rightarrow> string option) option \<Rightarrow> coalescing_source" where
  "build_load_context_source config include_environment_variables override =
     (let context_parts0 = [];
          context_parts1 =
            (case override of
               None \<Rightarrow> context_parts0
             | Some d \<Rightarrow> context_parts0 @ [DictServiceContextSource d]);
          context_parts2 =
            (if include_environment_variables
             then context_parts1 @ [EnvironmentVariableServiceContextSource ''SERVICE_'']
             else context_parts1);
          context_parts3 =
            (if has_parameters config
             then context_parts2 @ [ServiceConfigurationServiceContextSource config]
             else context_parts2)
      in CoalescingServiceContextSource context_parts3)"

text \<open>
  Modelled from the spec: the classes \<^verbatim>\<open>DictServiceContextSource\<close>,
  \<^verbatim>\<open>EnvironmentVariableServiceContextSource\<close> and \<^verbatim>\<open>CoalescingServiceContextSource\<close> of
  the \<^verbatim>\<open>context_sources\<close> module are not among the source files.  The specification
  says: a dict source's lookups are direct map reads; an environment source looks up
  prefix + name in the process environment; the coalescing source validates the name
  once, then queries its members strictly in order and returns the first non-null
  result; if all return null it uses the default; if the value is still null and
  required is true it fails with \<^verbatim>\<open>MissingParameterError(name)\<close>.  A member is asked
  for an optional value (not required, no default), so that an absent value is null
  rather than an error; the configuration member is the function of \<^verbatim>\<open>server.py\<close>
  above.  \<open>env\<close> is the process environment.
\<close>

fun member_value ::
  "(string \<Rightarrow> bool) \<Rightarrow> (string \<Rightarrow> string option) \<Rightarrow> context_source \<Rightarrow> string
     \<Rightarrow> store_read list \<Rightarrow> (pyexn + string option) \<times> store_read list" where
  "member_value valid env (DictServiceContextSource d) nm log = (Inr (d nm), log)"
| "member_value valid env (EnvironmentVariableServiceContextSource prefix) nm log =
     (Inr (env (prefix @ nm)), log)"
| "member_value valid env (ConfigurationSource ps) nm log =
     get_parameter_value valid ps nm False None log"

fun first_non_null ::
  "(string \<Rightarrow> bool) \<Rightarrow> (string \<Rightarrow> string option) \<Rightarrow> context_source list \<Rightarrow> string
     \<Rightarrow> store_read list \<Rightarrow> (pyexn + string option) \<times> store_read list" where
  "first_non_null valid env [] nm log = (Inr None, log)"
| "first_non_null valid env (s # ss) nm log =
     (case member_value valid env s nm log of
        (Inl e, log') \<Rightarrow> (Inl e, log')
      | (Inr (Some v), log') \<Rightarrow> (Inr (Some v), log')
      | (Inr None, log') \<Rightarrow> first_non_null valid env ss nm log')"

definition coalescing_get_parameter_value ::
  "(string \<Rightarrow> bool) \<Rightarrow> (string \<Rightarrow> string option) \<Rightarrow> coalescing_source \<Rightarrow> string \<Rightarrow> bool
     \<Rightarrow> string option \<Rightarrow> store_read list \<Rightarrow> (pyexn + string option) \<times> store_read list" where
  "coalescing_get_parameter_value valid env src nm required dflt log =
     (case raise_if_invalid valid nm of
        Inl e \<Rightarrow> (Inl e, log)
      | Inr _ \<Rightarrow>
          (case first_non_null valid env (members src) nm log of
             (Inl e, log') \<Rightarrow> (Inl e, log')
           | (Inr found, log') \<Rightarrow>
               (let val = (case found of None \<Rightarrow> dflt | Some v \<Rightarrow> Some v)
                in if required \<and> val = None then (Inl (MissingParameterError nm), log')
                   else (Inr val, log'))))"

section \<open>server.py: the service lifecycle wrapper\<close>

text \<open>
  A hosted service is a Python object with its own mutable state \<open>'s\<close> and any subset of
  the methods \<^verbatim>\<open>load\<close>, \<^verbatim>\<open>process\<close> and \<^verbatim>\<open>dispose\<close>.  A method body takes the
  positional arguments and the service's state and either raises or returns a value,
  leaving a new state.  A method is written with \<^verbatim>\<open>def\<close> or with \<^verbatim>\<open>async def\<close>:
  calling a \<^verbatim>\<open>def\<close> runs the body; calling an \<^verbatim>\<open>async def\<close> runs nothing and returns a
  coroutine object, whose body runs only when the coroutine is awaited.
\<close>

datatype ('c, 's, 'r) svc_method =
    Def "'c list \<Rightarrow> 's \<Rightarrow> (pyexn + 'r) \<times> 's"
  | AsyncDef "'c list \<Rightarrow> 's \<Rightarrow> (pyexn + 'r) \<times> 's"

datatype ('s, 'r) called =
    Value 'r
  | Coroutine "'s \<Rightarrow> (pyexn + 'r) \<times> 's"

fun call :: "('c, 's, 'r) svc_method \<Rightarrow> 'c list \<Rightarrow> 's \<Rightarrow> (pyexn + ('s, 'r) called) \<times> 's" where
  "call (Def body) args s =
     (case body args s of
        (Inl e, s') \<Rightarrow> (Inl e, s')
      | (Inr r, s') \<Rightarrow> (Inr (Value r), s'))"
| "call (AsyncDef body) args s = (Inr (Coroutine (body args)), s)"

text \<open>
  \<^verbatim>\<open>await c\<close> runs the coroutine \<open>c\<close> on the current state.  A coroutine that is
  created and never handed to \<open>await\<close> has no effect.
\<close>

definition await :: "('w \<Rightarrow> 'x \<times> 'w) \<Rightarrow> 'w \<Rightarrow> 'x \<times> 'w" where
  "await c w = c w"

record ('c, 's, 'r) service =
  svc_load :: "('c, 's, 'r) svc_method option"
  svc_process :: "('c, 's, 'r) svc_method option"
  svc_dispose :: "('c, 's, 'r) svc_method option"

text \<open>
  \<^verbatim>\<open>getattr(inst, func_name, None)\<close> on a service, for the three method names the
  wrapper asks for; \<^verbatim>\<open>hasattr(inst, func_name)\<close> is true when the attribute is there.
\<close>

definition getattr_or_None ::
  "('c, 's, 'r) service \<Rightarrow> string \<Rightarrow> ('c, 's, 'r) svc_method option" where
  "getattr_or_None inst func_name =
     (if func_name = ''load'' then svc_load inst
      else if func_name = ''process'' then svc_process inst
      else if func_name = ''dispose'' then svc_dispose inst
      else None)"

definition hasattr :: "('c, 's, 'r) service \<Rightarrow> string \<Rightarrow> bool" where
  "hasattr inst func_name = (getattr_or_None inst func_name \<noteq> None)"

text \<open>
  The wrapper object: the flag \<^verbatim>\<open>_is_loaded\<close> and, behind the reference \<^verbatim>\<open>_service\<close>,
  the state of the wrapped service.  The service's methods are passed beside it, since
  the wrapper never rebinds \<^verbatim>\<open>_service\<close>.  \<^verbatim>\<open>__init__\<close> (lines 40 to 42) clears the flag.
\<close>

record 's wrapper =
  is_loaded :: bool
  service_state :: 's

definition SafeServiceWrapper :: "'s \<Rightarrow> 's wrapper" where
  "SafeServiceWrapper s = \<lparr>is_loaded = False, service_state = s\<rparr>"

text \<open>
  \<^verbatim>\<open>_call_maybe_coroutine\<close> (lines 52 to 58), as the coroutine its \<^verbatim>\<open>async def\<close>
  returns: call the function; await the result when it is a coroutine.
\<close>

definition call_maybe_coroutine ::
  "('c, 's, 'r) svc_method \<Rightarrow> 'c list \<Rightarrow> 's wrapper \<Rightarrow> (pyexn + 'r) \<times> 's wrapper" where
  "call_maybe_coroutine func args w =
     (case call func args (service_state w) of
        (Inl e, s') \<Rightarrow> (Inl e, w\<lparr>service_state := s'\<rparr>)
      | (Inr (Coroutine res), s') \<Rightarrow>
          (case await res s' of (r, s'') \<Rightarrow> (r, w\<lparr>service_state := s''\<rparr>))
      | (Inr (Value res), s') \<Rightarrow> (Inr res, w\<lparr>service_state := s'\<rparr>))"

text \<open>
  \<^verbatim>\<open>_try_call_maybe_coroutine\<close> (lines 44 to 50), as a coroutine: \<^verbatim>\<open>return False\<close>
  when the attribute is missing (\<open>Some False\<close>), otherwise await the call and fall off
  the end (\<open>None\<close>).  Nothing in it catches an exception.
\<close>

definition try_call_maybe_coroutine ::
  "('c, 's, 'r) service \<Rightarrow> string \<Rightarrow> 'c list \<Rightarrow> 's wrapper
     \<Rightarrow> (pyexn + bool option) \<times> 's wrapper" where
  "try_call_maybe_coroutine inst func_name args w =
     (case getattr_or_None inst func_name of
        None \<Rightarrow> (Inr (Some False), w)
      | Some val \<Rightarrow>
          (case await (call_maybe_coroutine val args) w of
             (Inl e, w') \<Rightarrow> (Inl e, w')
           | (Inr _, w') \<Rightarrow> (Inr None, w')))"

definition has_load :: "('c, 's, 'r) service \<Rightarrow> bool" where
  "has_load svc = hasattr svc ''load''"

text \<open>
  \<^verbatim>\<open>load\<close> (lines 63 to 66), as a coroutine.  Line 64 calls
  \<^verbatim>\<open>_try_call_maybe_coroutine\<close> without \<^verbatim>\<open>await\<close>: the coroutine object is created and
  dropped, and line 66 sets the flag.
\<close>

definition load ::
  "('c, 's, 'r) service \<Rightarrow> 'c \<Rightarrow> 's wrapper \<Rightarrow> (pyexn + unit) \<times> 's wrapper" where
  "load svc ctx w =
     (let dropped = try_call_maybe_coroutine svc ''load'' [ctx]
      in (Inr (), w\<lparr>is_loaded := True\<rparr>))"

text \<open>
  \<^verbatim>\<open>process\<close> (lines 68 to 72), as a coroutine.  After the guard, line 72 reads the
  attribute \<^verbatim>\<open>self._service.process\<close> (an \<^verbatim>\<open>AttributeError\<close> when the service has
  none), calls \<^verbatim>\<open>_call_maybe_coroutine\<close> without \<^verbatim>\<open>await\<close> and without \<^verbatim>\<open>return\<close>: the
  coroutine object is dropped and the method returns \<^verbatim>\<open>None\<close>.
\<close>

definition process ::
  "('c, 's, 'r) service \<Rightarrow> 'c \<Rightarrow> 's wrapper \<Rightarrow> (pyexn + 'r option) \<times> 's wrapper" where
  "process svc ctx w =
     (if \<not> is_loaded w \<and> has_load svc
      then (Inl (ValueError ''Be sure to call load before process!''), w)
      else
        (case svc_process svc of
           None \<Rightarrow> (Inl (AttributeError ''process''), w)
         | Some func \<Rightarrow>
             (let dropped = call_maybe_coroutine func [ctx]
              in (Inr None, w))))"

text \<open>
  \<^verbatim>\<open>dispose\<close> (lines 74 to 75), an ordinary \<^verbatim>\<open>def\<close>: it calls
  \<^verbatim>\<open>_try_call_maybe_coroutine\<close>, drops the coroutine object and returns \<^verbatim>\<open>None\<close>.
\<close>

definition dispose :: "('c, 's, 'r) service \<Rightarrow> 's wrapper \<Rightarrow> (pyexn + unit) \<times> 's wrapper" where
  "dispose svc w =
     (let dropped = try_call_maybe_coroutine svc ''dispose'' []
      in (Inr (), w))"

text \<open>
  A host drives a wrapper through a sequence of calls, each awaited; it may go on after
  a call has raised.
\<close>

datatype 'c host_call = Load 'c | Process 'c | Dispose

fun host_step :: "('c, 's, 'r) service \<Rightarrow> 'c host_call \<Rightarrow> 's wrapper \<Rightarrow> 's wrapper" where
  "host_step svc (Load ctx) w = snd (await (load svc ctx) w)"
| "host_step svc (Process ctx) w = snd (await (process svc ctx) w)"
| "host_step svc Dispose w = snd (dispose svc w)"

fun host_run :: "('c, 's, 'r) service \<Rightarrow> 'c host_call list \<Rightarrow> 's wrapper \<Rightarrow> 's wrapper" where
  "host_run svc [] w = w"
| "host_run svc (c # cs) w = host_run svc cs (host_step svc c w)"

section \<open>Example inputs\<close>

text \<open>
  A name validator that accepts non-empty names without blanks, two parameter stores,
  a configuration, an override dict and a process environment.
\<close>

definition identifier_ok :: "string \<Rightarrow> bool" where
  "identifier_ok nm = (nm \<noteq> [] \<and> CHR '' '' \<notin> set nm)"

definition foo_empty_store :: parameters_store where
  "foo_empty_store = \<lparr>get_value = [''foo'' \<mapsto> []], get_real_path_value = Map.empty\<rparr>"

definition foo_bar_store :: parameters_store where
  "foo_bar_store = \<lparr>get_value = [''foo'' \<mapsto> ''bar''], get_real_path_value = Map.empty\<rparr>"

definition foo_bar_configuration :: service_configuration where
  "foo_bar_configuration = \<lparr>has_parameters = True, parameters = foo_bar_store\<rparr>"

definition foo_baz_override :: "string \<Rightarrow> string option" where
  "foo_baz_override = [''foo'' \<mapsto> ''baz'']"

definition foo_qux_environment :: "string \<Rightarrow> string option" where
  "foo_qux_environment = [''SERVICE_foo'' \<mapsto> ''qux'']"

text \<open>
  Services whose state is the list of what their methods have done so far: each method
  appends its own name and its arguments.  \<open>recording_service\<close> has all three methods
  as \<^verbatim>\<open>def\<close>, \<open>async_service\<close> has an \<^verbatim>\<open>async def load\<close>, and
  \<open>process_only_service\<close> has neither \<^verbatim>\<open>load\<close> nor \<^verbatim>\<open>dispose\<close>.
\<close>

definition recording_load :: "(string, string list, nat) svc_method" where
  "recording_load = Def (\<lambda>args s. (Inr 0, s @ [''load''] @ args))"

definition recording_process :: "(string, string list, nat) svc_method" where
  "recording_process = Def (\<lambda>args s. (Inr 42, s @ [''process''] @ args))"

definition recording_dispose :: "(string, string list, nat) svc_method" where
  "recording_dispose = Def (\<lambda>args s. (Inr 0, s @ [''dispose'']))"

definition recording_service :: "(string, string list, nat) service" where
  "recording_service =
     \<lparr>svc_load = Some recording_load, svc_process = Some recording_process,
      svc_dispose = Some recording_dispose\<rparr>"

definition async_load :: "(string, string list, nat) svc_method" where
  "async_load = AsyncDef (\<lambda>args s. (Inr 0, s @ [''load''] @ args))"

definition async_service :: "(string, string list, nat) service" where
  "async_service =
     \<lparr>svc_load = Some async_load, svc_process = Some recording_process, svc_dispose = None\<rparr>"

definition process_only_service :: "(string, string list, nat) service" where
  "process_only_service =
     \<lparr>svc_load = None, svc_process = Some recording_process, svc_dispose = None\<rparr>"

section \<open>Properties of the error taxonomy\<close>

text \<open>
  Claim C8.  Constructing any of the five error classes without a message (\<^verbatim>\<open>None\<close>)
  sets \<^verbatim>\<open>message\<close>, in the constructor itself, to the class's default text built from
  the identity arguments; this holds for every choice of names.  In particular
  \<^verbatim>\<open>BadDatasetError("customers")\<close> and \<^verbatim>\<open>MissingDatasetFieldError("orders", "id")\<close> carry
  the two messages the specification quotes.
\<close>

theorem C8_default_messages:
  "message (BadRequestError nm None) = Some ''The request was not valid''
   \<and> message (BadParameterError nm None) = Some (''The request parameter '' @ nm @ '' was not valid'')
   \<and> message (BadDatasetError ds None) = Some (''The input dataset '' @ ds @ '' was not valid'')
   \<and> message (DatasetFieldError ds fld None)
       = Some (''The field '' @ fld @ '' was not valid for input dataset '' @ ds)
   \<and> message (MissingDatasetFieldError ds fld None)
       = Some (''The field '' @ fld @ '' on input dataset '' @ ds
               @ '' is required but could not be found!'')
   \<and> message (BadDatasetError ''customers'' None)
       = Some ''The input dataset customers was not valid''
   \<and> message (MissingDatasetFieldError ''orders'' ''id'' None)
       = Some ''The field id on input dataset orders is required but could not be found!''"
  by (simp add: BadRequestError_def BadParameterError_def BadDatasetError_def
      DatasetFieldError_def MissingDatasetFieldError_def py_or_def)

text \<open>
  Claim C9, as stated: for every supplied (non-null) message the constructed error's
  message is that string verbatim.  The constructors select the message with \<^verbatim>\<open>or\<close>,
  so a supplied empty string counts as no message and the default text is stored.
\<close>

theorem C9_counterexample:
  "message (BadRequestError ''x'' (Some [])) \<noteq> Some []
   \<and> message (BadRequestError ''x'' (Some [])) = Some ''The request was not valid''
   \<and> message (BadParameterError ''x'' (Some [])) \<noteq> Some []
   \<and> message (BadDatasetError ''x'' (Some [])) \<noteq> Some []
   \<and> message (DatasetFieldError ''x'' ''f'' (Some [])) \<noteq> Some []
   \<and> message (MissingDatasetFieldError ''x'' ''f'' (Some [])) \<noteq> Some []"
  by (simp add: BadRequestError_def BadParameterError_def BadDatasetError_def
      DatasetFieldError_def MissingDatasetFieldError_def py_or_def)

text \<open>
  Claim C9, amended: for every class of the taxonomy, construction yields an error
  object (the constructors are total); for every supplied non-empty message its
  message is the supplied string verbatim; and when the supplied message is the empty
  string the message is the class's identity-derived default text, as when no message
  is given.
\<close>

theorem C9_message_verbatim:
  "(msg \<noteq> [] \<longrightarrow>
      message (BadRequestError nm (Some msg)) = Some msg
    \<and> message (BadParameterError nm (Some msg)) = Some msg
    \<and> message (BadDatasetError ds (Some msg)) = Some msg
    \<and> message (DatasetFieldError ds fld (Some msg)) = Some msg
    \<and> message (MissingDatasetFieldError ds fld (Some msg)) = Some msg)
   \<and> message (BadRequestError nm (Some [])) = Some ''The request was not valid''
   \<and> message (BadParameterError nm (Some []))
       = Some (''The request parameter '' @ nm @ '' was not valid'')
   \<and> message (BadDatasetError ds (Some []))
       = Some (''The input dataset '' @ ds @ '' was not valid'')
   \<and> message (DatasetFieldError ds fld (Some []))
       = Some (''The field '' @ fld @ '' was not valid for input dataset '' @ ds)
   \<and> message (MissingDatasetFieldError ds fld (Some []))
       = Some (''The field '' @ fld @ '' on input dataset '' @ ds
               @ '' is required but could not be found!'')
   \<and> message (BadRequestError nm (Some [])) = message (BadRequestError nm None)
   \<and> message (BadParameterError nm (Some [])) = message (BadParameterError nm None)
   \<and> message (BadDatasetError ds (Some [])) = message (BadDatasetError ds None)
   \<and> message (DatasetFieldError ds fld (Some [])) = message (DatasetFieldError ds fld None)
   \<and> message (MissingDatasetFieldError ds fld (Some []))
       = message (MissingDatasetFieldError ds fld None)"
  by (simp add: BadRequestError_def BadParameterError_def BadDatasetError_def
      DatasetFieldError_def MissingDatasetFieldError_def py_or_def)

text \<open>
  The amended claim C9 at the message \<open>bad\<close> and at the empty message, for each of
  the five classes.
\<close>

theorem C9_message_verbatim_witness:
  "''bad'' \<noteq> []
   \<and> message (BadRequestError ''p'' (Some ''bad'')) = Some ''bad''
   \<and> message (BadParameterError ''p'' (Some ''bad'')) = Some ''bad''
   \<and> message (BadDatasetError ''d'' (Some ''bad'')) = Some ''bad''
   \<and> message (DatasetFieldError ''d'' ''f'' (Some ''bad'')) = Some ''bad''
   \<and> message (MissingDatasetFieldError ''d'' ''f'' (Some ''bad'')) = Some ''bad''
   \<and> message (BadRequestError ''p'' (Some [])) = Some ''The request was not valid''
   \<and> message (BadParameterError ''p'' (Some []))
       = Some ''The request parameter p was not valid''
   \<and> message (BadDatasetError ''d'' (Some [])) = Some ''The input dataset d was not valid''
   \<and> message (DatasetFieldError ''d'' ''f'' (Some []))
       = Some ''The field f was not valid for input dataset d''
   \<and> message (MissingDatasetFieldError ''d'' ''f'' (Some []))
       = Some ''The field f on input dataset d is required but could not be found!''"
  using C9_message_verbatim [of "''bad''" "''p''" "''d''" "''f''"] by simp

section \<open>Properties of the configuration context source\<close>

lemma get_parameter_value_valid:
  "valid nm \<Longrightarrow> get_parameter_value valid ps nm required dflt log =
     (if required \<and> \<not> truthy (get_value ps nm) \<and> dflt = None
      then Inl (MissingParameterError nm)
      else Inr (if truthy (get_value ps nm) then get_value ps nm else dflt),
      log @ [ReadValue nm])"
  by (cases "get_value ps nm")
     (auto simp: get_parameter_value_def raise_if_invalid_def read_value_def py_or_def Let_def)

lemma valid_name_reads_store:
  "valid nm \<Longrightarrow>
     snd (get_parameter_value valid ps nm required dflt log) = log @ [ReadValue nm]
     \<and> snd (get_parameter_real_path_value valid ps nm required log) = log @ [ReadRealPath nm]"
  by (simp add: get_parameter_value_valid)
     (simp add: get_parameter_real_path_value_def raise_if_invalid_def read_real_path_value_def)

text \<open>
  Claim C6, as stated: a non-null configuration value is returned, and
  \<^verbatim>\<open>MissingParameterError\<close> is raised only when both the configuration value and the
  default are null.  The store of \<open>foo_empty_store\<close> holds the empty string for
  \<^verbatim>\<open>foo\<close>, a non-null value: the lookup returns the caller's default instead of it,
  and with \<^verbatim>\<open>required\<close> and no default it raises.
\<close>

theorem C6_counterexample:
  "identifier_ok ''foo''
   \<and> get_value foo_empty_store ''foo'' \<noteq> None
   \<and> fst (get_parameter_value identifier_ok foo_empty_store ''foo'' False (Some ''fallback'') [])
       = Inr (Some ''fallback'')
   \<and> fst (get_parameter_value identifier_ok foo_empty_store ''foo'' True None [])
       = Inl (MissingParameterError ''foo'')"
  by (simp add: identifier_ok_def foo_empty_store_def get_parameter_value_def
      raise_if_invalid_def read_value_def py_or_def)

text \<open>
  Claim C6, amended: for every valid name, \<^verbatim>\<open>get_parameter_value(name, required, default)\<close>
  of the configuration source returns the configuration's value when that value is
  true in Python's sense (a non-null, non-empty string), otherwise the caller's
  default; and it raises, and then exactly \<^verbatim>\<open>MissingParameterError(name)\<close>, if and only
  if \<^verbatim>\<open>required\<close> is true, the configuration value is null or empty, and the default is
  null.
\<close>

theorem C6_value_or_default:
  assumes "valid nm"
  shows "fst (get_parameter_value valid ps nm required dflt log) =
           (if required \<and> \<not> truthy (get_value ps nm) \<and> dflt = None
            then Inl (MissingParameterError nm)
            else Inr (if truthy (get_value ps nm) then get_value ps nm else dflt))
       \<and> ((\<exists>e. fst (get_parameter_value valid ps nm required dflt log) = Inl e)
            = (required \<and> \<not> truthy (get_value ps nm) \<and> dflt = None))"
  using assms by (simp add: get_parameter_value_valid)

text \<open>
  The amended claim C6 on the store that configures \<^verbatim>\<open>foo = "bar"\<close>: the configured
  value, the default for a name that is not configured, and the error for a required
  name with neither.
\<close>

theorem C6_value_or_default_witness:
  "identifier_ok ''foo''
   \<and> fst (get_parameter_value identifier_ok foo_bar_store ''foo'' True None []) = Inr (Some ''bar'')
   \<and> fst (get_parameter_value identifier_ok foo_bar_store ''other'' False (Some ''fallback'') [])
       = Inr (Some ''fallback'')
   \<and> fst (get_parameter_value identifier_ok foo_bar_store ''other'' True None [])
       = Inl (MissingParameterError ''other'')"
  using C6_value_or_default [of identifier_ok "''foo''" foo_bar_store True None "[]"]
        C6_value_or_default [of identifier_ok "''other''" foo_bar_store False "Some ''fallback''" "[]"]
        C6_value_or_default [of identifier_ok "''other''" foo_bar_store True None "[]"]
  by (simp add: identifier_ok_def foo_bar_store_def)

text \<open>
  Claim C7.  Both lookups of the configuration source run the Name Validator first: for
  a name that fails validation each of them raises the validator's naming-violation
  error, whatever the store holds and whatever \<^verbatim>\<open>required\<close> and the default are, and
  the log of store reads is returned as it was, so the store has not been queried and
  the name resolves neither to null nor to a value.
\<close>

theorem C7_invalid_name_never_reads:
  assumes "\<not> valid nm"
  shows "get_parameter_value valid ps nm required dflt log = (Inl (NamingViolation nm), log)
       \<and> get_parameter_real_path_value valid ps nm required log = (Inl (NamingViolation nm), log)"
  using assms
  by (simp add: get_parameter_value_def get_parameter_real_path_value_def raise_if_invalid_def)

text \<open>Claim C7 at a name with a blank in it, on a store that is never read.\<close>

theorem C7_invalid_name_never_reads_witness:
  "\<not> identifier_ok ''bad name''
   \<and> get_parameter_value identifier_ok foo_bar_store ''bad name'' False (Some ''x'') []
       = (Inl (NamingViolation ''bad name''), [])
   \<and> get_parameter_real_path_value identifier_ok foo_bar_store ''bad name'' False []
       = (Inl (NamingViolation ''bad name''), [])"
  using C7_invalid_name_never_reads
          [of identifier_ok "''bad name''" foo_bar_store False "Some ''x''" "[]"]
  by (simp add: identifier_ok_def)

section \<open>Properties of the load context source\<close>

lemma members_build_load_context_source:
  "members (build_load_context_source config inc override) =
     (case override of None \<Rightarrow> [] | Some d \<Rightarrow> [DictServiceContextSource d])
     @ (if inc then [EnvironmentVariableServiceContextSource ''SERVICE_''] else [])
     @ (if has_parameters config then [ConfigurationSource (parameters config)] else [])"
  by (simp add: build_load_context_source_def ServiceConfigurationServiceContextSource_def
      split: option.splits)

lemma first_non_null_configuration:
  "valid nm \<Longrightarrow>
   fst (first_non_null valid env [ConfigurationSource ps] nm log) =
     Inr (if truthy (get_value ps nm) then get_value ps nm else None)"
  by (cases "get_value ps nm") (auto simp: get_parameter_value_valid)

lemma coalescing_found_fst:
  "valid nm \<Longrightarrow> fst (first_non_null valid env (members src) nm log) = Inr (Some v) \<Longrightarrow>
   fst (coalescing_get_parameter_value valid env src nm required dflt log) = Inr (Some v)"
  by (cases "first_non_null valid env (members src) nm log")
     (simp add: coalescing_get_parameter_value_def raise_if_invalid_def)

text \<open>
  Claim C5.  For every override (possibly absent), environment flag and configuration,
  the coalescing source that \<^verbatim>\<open>build_load_context_source\<close> returns has exactly these
  members, in this order: the dict source of the override when one is supplied, the
  environment source with prefix \<^verbatim>\<open>SERVICE_\<close> when environment variables are enabled,
  the configuration source when the configuration declares parameters.  Hence, for a
  valid name, a value in the override is the result; without one, a value in the
  environment (when enabled) is the result; without either, the value of the
  configuration (when it declares parameters and has one) is the result.
\<close>

theorem C5_chain_order:
  assumes "valid nm"
  shows "members (build_load_context_source config inc override) =
           (case override of None \<Rightarrow> [] | Some d \<Rightarrow> [DictServiceContextSource d])
           @ (if inc then [EnvironmentVariableServiceContextSource ''SERVICE_''] else [])
           @ (if has_parameters config then [ConfigurationSource (parameters config)] else [])
    \<and> (\<forall>d v. override = Some d \<longrightarrow> d nm = Some v \<longrightarrow>
          fst (coalescing_get_parameter_value valid env
                 (build_load_context_source config inc override) nm required dflt log)
            = Inr (Some v))
    \<and> (\<forall>v. (case override of None \<Rightarrow> True | Some d \<Rightarrow> d nm = None) \<longrightarrow> inc \<longrightarrow>
          env (''SERVICE_'' @ nm) = Some v \<longrightarrow>
          fst (coalescing_get_parameter_value valid env
                 (build_load_context_source config inc override) nm required dflt log)
            = Inr (Some v))
    \<and> ((case override of None \<Rightarrow> True | Some d \<Rightarrow> d nm = None) \<longrightarrow>
        (if inc then env (''SERVICE_'' @ nm) = None else True) \<longrightarrow>
        has_parameters config \<longrightarrow> truthy (get_value (parameters config) nm) \<longrightarrow>
          fst (coalescing_get_parameter_value valid env
                 (build_load_context_source config inc override) nm required dflt log)
            = Inr (get_value (parameters config) nm))"
proof (intro conjI allI impI)
  show "members (build_load_context_source config inc override) =
           (case override of None \<Rightarrow> [] | Some d \<Rightarrow> [DictServiceContextSource d])
           @ (if inc then [EnvironmentVariableServiceContextSource ''SERVICE_''] else [])
           @ (if has_parameters config then [ConfigurationSource (parameters config)] else [])"
    by (rule members_build_load_context_source)
next
  fix d v
  assume "override = Some d" "d nm = Some v"
  then have "fst (first_non_null valid env
                (members (build_load_context_source config inc override)) nm log) = Inr (Some v)"
    by (simp add: members_build_load_context_source)
  with assms show "fst (coalescing_get_parameter_value valid env
                 (build_load_context_source config inc override) nm required dflt log)
            = Inr (Some v)"
    by (rule coalescing_found_fst)
next
  fix v
  assume "case override of None \<Rightarrow> True | Some d \<Rightarrow> d nm = None" inc
    "env (''SERVICE_'' @ nm) = Some v"
  then have "fst (first_non_null valid env
                (members (build_load_context_source config inc override)) nm log) = Inr (Some v)"
    by (simp add: members_build_load_context_source split: option.splits)
  with assms show "fst (coalescing_get_parameter_value valid env
                 (build_load_context_source config inc override) nm required dflt log)
            = Inr (Some v)"
    by (rule coalescing_found_fst)
next
  assume a: "case override of None \<Rightarrow> True | Some d \<Rightarrow> d nm = None"
    "if inc then env (''SERVICE_'' @ nm) = None else True"
    "has_parameters config" "truthy (get_value (parameters config) nm)"
  from a(4) obtain v where v: "get_value (parameters config) nm = Some v"
    by (cases "get_value (parameters config) nm") auto
  have "fst (first_non_null valid env [ConfigurationSource (parameters config)] nm log)
          = Inr (Some v)"
    using assms a(4) v by (simp only: first_non_null_configuration if_True)
  with a(1,2,3) have "fst (first_non_null valid env
                (members (build_load_context_source config inc override)) nm log) = Inr (Some v)"
    by (simp add: members_build_load_context_source split: option.splits if_splits)
  with assms show "fst (coalescing_get_parameter_value valid env
                 (build_load_context_source config inc override) nm required dflt log)
            = Inr (get_value (parameters config) nm)"
    unfolding v by (rule coalescing_found_fst)
qed

text \<open>
  Claim C5 on the configuration \<^verbatim>\<open>foo = "bar"\<close>, the environment
  \<^verbatim>\<open>SERVICE_foo = "qux"\<close> and the override \<^verbatim>\<open>{"foo": "baz"}\<close>: the three members in
  order; the override wins; without the override the environment wins; without either
  the configuration's value is the result.
\<close>

theorem C5_chain_order_witness:
  "identifier_ok ''foo''
   \<and> foo_baz_override ''foo'' = Some ''baz''
   \<and> foo_qux_environment (''SERVICE_'' @ ''foo'') = Some ''qux''
   \<and> has_parameters foo_bar_configuration
   \<and> truthy (get_value (parameters foo_bar_configuration) ''foo'')
   \<and> members (build_load_context_source foo_bar_configuration True (Some foo_baz_override))
       = [DictServiceContextSource foo_baz_override,
          EnvironmentVariableServiceContextSource ''SERVICE_'',
          ConfigurationSource foo_bar_store]
   \<and> fst (coalescing_get_parameter_value identifier_ok foo_qux_environment
            (build_load_context_source foo_bar_configuration True (Some foo_baz_override))
            ''foo'' True None []) = Inr (Some ''baz'')
   \<and> fst (coalescing_get_parameter_value identifier_ok foo_qux_environment
            (build_load_context_source foo_bar_configuration True None)
            ''foo'' True None []) = Inr (Some ''qux'')
   \<and> fst (coalescing_get_parameter_value identifier_ok foo_qux_environment
            (build_load_context_source foo_bar_configuration False None)
            ''foo'' True None []) = Inr (Some ''bar'')"
  using C5_chain_order [of identifier_ok "''foo''" foo_bar_configuration True
      "Some foo_baz_override" foo_qux_environment True None "[]"]
    C5_chain_order [of identifier_ok "''foo''" foo_bar_configuration True
      None foo_qux_environment True None "[]"]
    C5_chain_order [of identifier_ok "''foo''" foo_bar_configuration False
      None foo_qux_environment True None "[]"]
  by (simp add: identifier_ok_def foo_bar_configuration_def foo_baz_override_def
      foo_qux_environment_def foo_bar_store_def)

section \<open>Properties of the service lifecycle wrapper\<close>

lemma load_eq: "load svc ctx w = (Inr (), w\<lparr>is_loaded := True\<rparr>)"
  by (simp add: load_def)

lemma dispose_eq: "dispose svc w = (Inr (), w)"
  by (simp add: dispose_def)

lemma process_eq:
  "process svc ctx w =
     (if \<not> is_loaded w \<and> has_load svc
      then (Inl (ValueError ''Be sure to call load before process!''), w)
      else case svc_process svc of
             None \<Rightarrow> (Inl (AttributeError ''process''), w)
           | Some func \<Rightarrow> (Inr None, w))"
  by (simp add: process_def Let_def split: option.splits)

lemma snd_process: "snd (process svc ctx w) = w"
  by (simp add: process_eq split: option.splits)

text \<open>
  Claim C1 says that awaiting the wrapper's \<^verbatim>\<open>load(ctx)\<close> runs the service's load to
  completion before the wrapper becomes Loaded.  On \<open>recording_service\<close>, which has
  a \<^verbatim>\<open>load\<close>, the awaited \<^verbatim>\<open>load\<close> returns with the flag set and the service's state
  still empty: the service's load has not run.  Had line 64 awaited
  \<^verbatim>\<open>_try_call_maybe_coroutine\<close>, the state would hold the call.  The same happens with
  the \<^verbatim>\<open>async def load\<close> of \<open>async_service\<close>.
\<close>

theorem C1_load_not_run:
  "has_load recording_service
   \<and> await (load recording_service ''ctx'') (SafeServiceWrapper [])
       = (Inr (), \<lparr>is_loaded = True, service_state = []\<rparr>)
   \<and> await (try_call_maybe_coroutine recording_service ''load'' [''ctx'']) (SafeServiceWrapper [])
       = (Inr None, \<lparr>is_loaded = False, service_state = [''load'', ''ctx'']\<rparr>)
   \<and> has_load async_service
   \<and> await (load async_service ''ctx'') (SafeServiceWrapper [])
       = (Inr (), \<lparr>is_loaded = True, service_state = []\<rparr>)
   \<and> await (try_call_maybe_coroutine async_service ''load'' [''ctx'']) (SafeServiceWrapper [])
       = (Inr None, \<lparr>is_loaded = False, service_state = [''load'', ''ctx'']\<rparr>)"
  by (simp add: has_load_def hasattr_def getattr_or_None_def recording_service_def
      async_service_def recording_load_def async_load_def await_def load_def
      SafeServiceWrapper_def try_call_maybe_coroutine_def call_maybe_coroutine_def)

text \<open>
  Claim C2 says that awaiting the wrapper's \<^verbatim>\<open>process(ctx)\<close> on a Loaded wrapper
  invokes the service's process and returns its result.  On \<open>recording_service\<close>,
  whose process returns 42, the awaited \<^verbatim>\<open>process\<close> returns \<^verbatim>\<open>None\<close> and leaves the
  service's state empty: the service's process has not run.  Awaiting
  \<^verbatim>\<open>_call_maybe_coroutine\<close> on the same method gives 42 and records the call.
\<close>

theorem C2_process_not_run:
  "svc_process recording_service = Some recording_process
   \<and> await (process recording_service ''ctx'') \<lparr>is_loaded = True, service_state = []\<rparr>
       = (Inr None, \<lparr>is_loaded = True, service_state = []\<rparr>)
   \<and> await (call_maybe_coroutine recording_process [''ctx''])
         \<lparr>is_loaded = True, service_state = []\<rparr>
       = (Inr 42, \<lparr>is_loaded = True, service_state = [''process'', ''ctx'']\<rparr>)"
  by (simp add: recording_service_def recording_process_def await_def process_def
      call_maybe_coroutine_def)

text \<open>
  Claim C3.  The wrapper's \<^verbatim>\<open>process(ctx)\<close> raises the invalid-state error (the
  \<^verbatim>\<open>ValueError\<close> of line 70) if and only if the service has a \<^verbatim>\<open>load\<close> and the wrapper
  is not Loaded.  In particular, for a service without \<^verbatim>\<open>load\<close> (and with a
  \<^verbatim>\<open>process\<close>) the call on a fresh wrapper returns normally; and after an awaited
  \<^verbatim>\<open>load\<close> the call never raises the state error, and returns normally when the
  service has a \<^verbatim>\<open>process\<close>.
\<close>

theorem C3_state_guard:
  "((\<exists>msg. fst (await (process svc ctx) w) = Inl (ValueError msg))
      = (has_load svc \<and> \<not> is_loaded w))
   \<and> (\<not> has_load svc \<longrightarrow> svc_process svc \<noteq> None \<longrightarrow>
        fst (await (process svc ctx) (SafeServiceWrapper s)) = Inr None)
   \<and> (\<forall>msg. fst (await (process svc ctx') (snd (await (load svc ctx) w)))
        \<noteq> Inl (ValueError msg))
   \<and> (svc_process svc \<noteq> None \<longrightarrow>
        fst (await (process svc ctx') (snd (await (load svc ctx) w))) = Inr None)"
  by (auto simp: await_def process_eq load_eq SafeServiceWrapper_def split: option.splits)

text \<open>
  Claim C3 on two services: \<open>recording_service\<close> has a \<^verbatim>\<open>load\<close>, so \<^verbatim>\<open>process\<close> on
  the fresh wrapper raises and after \<^verbatim>\<open>load\<close> returns; \<open>process_only_service\<close> has
  none, so \<^verbatim>\<open>process\<close> on the fresh wrapper returns.
\<close>

theorem C3_state_guard_witness:
  "has_load recording_service \<and> \<not> is_loaded (SafeServiceWrapper ([] :: string list))
   \<and> (\<exists>msg. fst (await (process recording_service ''c'') (SafeServiceWrapper []))
         = Inl (ValueError msg))
   \<and> \<not> has_load process_only_service \<and> svc_process process_only_service \<noteq> None
   \<and> fst (await (process process_only_service ''c'') (SafeServiceWrapper [])) = Inr None
   \<and> svc_process recording_service \<noteq> None
   \<and> fst (await (process recording_service ''d'')
           (snd (await (load recording_service ''c'') (SafeServiceWrapper [])))) = Inr None"
  using C3_state_guard [of recording_service "''c''" "SafeServiceWrapper []" "[]" "''d''"]
        C3_state_guard [of process_only_service "''c''" "SafeServiceWrapper []" "[]" "''d''"]
  by (simp add: has_load_def hasattr_def getattr_or_None_def recording_service_def
      process_only_service_def SafeServiceWrapper_def)

text \<open>
  Claim C4 says that the wrapper's \<^verbatim>\<open>dispose()\<close> invokes the dispose of a service that
  has one.  On \<open>recording_service\<close>, which has a \<^verbatim>\<open>dispose\<close>, the call returns and
  leaves the service's state empty: the service's dispose has not run.  Awaiting the
  coroutine that line 75 creates would record the call.
\<close>

theorem C4_dispose_not_run:
  "hasattr recording_service ''dispose''
   \<and> dispose recording_service \<lparr>is_loaded = True, service_state = []\<rparr>
       = (Inr (), \<lparr>is_loaded = True, service_state = []\<rparr>)
   \<and> await (try_call_maybe_coroutine recording_service ''dispose'' [])
         \<lparr>is_loaded = True, service_state = []\<rparr>
       = (Inr None, \<lparr>is_loaded = True, service_state = [''dispose'']\<rparr>)"
  by (simp add: hasattr_def getattr_or_None_def recording_service_def recording_dispose_def
      await_def dispose_def try_call_maybe_coroutine_def call_maybe_coroutine_def)

lemma host_step_loaded: "is_loaded w \<Longrightarrow> is_loaded (host_step svc c w)"
  by (cases c) (simp_all add: await_def load_eq snd_process dispose_eq)

lemma host_run_loaded: "is_loaded w \<Longrightarrow> is_loaded (host_run svc cs w)"
  by (induction cs arbitrary: w) (simp_all add: host_step_loaded)

text \<open>
  Claim C10.  The wrapper's loaded flag is monotone: a fresh wrapper has it false;
  \<^verbatim>\<open>load\<close> sets it; \<^verbatim>\<open>process\<close> leaves it as it is; \<^verbatim>\<open>dispose\<close> leaves the whole
  wrapper as it is, so there is no Disposed state; once set it stays set through every
  sequence of calls; and on a Loaded wrapper a \<^verbatim>\<open>process\<close> after \<^verbatim>\<open>dispose\<close> does not
  raise the state error.
\<close>

theorem C10_loaded_flag_monotone:
  "\<not> is_loaded (SafeServiceWrapper s)
   \<and> is_loaded (snd (await (load svc ctx) w))
   \<and> is_loaded (snd (await (process svc ctx) w)) = is_loaded w
   \<and> snd (dispose svc w) = w
   \<and> (is_loaded w \<longrightarrow> is_loaded (host_run svc cs w))
   \<and> (is_loaded w \<longrightarrow>
        (\<forall>msg. fst (await (process svc ctx) (snd (dispose svc w))) \<noteq> Inl (ValueError msg)))"
  by (auto simp: SafeServiceWrapper_def await_def load_eq snd_process dispose_eq host_run_loaded
      process_eq split: option.splits)

text \<open>
  Claim C10 on \<open>recording_service\<close>: after \<^verbatim>\<open>load\<close> the flag is set, it is still set
  after dispose, process, load and dispose again, and \<^verbatim>\<open>process\<close> after \<^verbatim>\<open>dispose\<close>
  returns.
\<close>

theorem C10_loaded_flag_monotone_witness:
  "is_loaded (snd (await (load recording_service ''c'') (SafeServiceWrapper [])))
   \<and> is_loaded (host_run recording_service [Dispose, Process ''d'', Load ''e'', Dispose]
        (snd (await (load recording_service ''c'') (SafeServiceWrapper []))))
   \<and> fst (await (process recording_service ''d'')
        (snd (dispose recording_service
           (snd (await (load recording_service ''c'') (SafeServiceWrapper []))))))
       = Inr None"
  using C10_loaded_flag_monotone [of "[]" recording_service "''c''" "SafeServiceWrapper []"
      "[Dispose, Process ''d'', Load ''e'', Dispose]"]
    C10_loaded_flag_monotone [of "[]" recording_service "''d''"
      "snd (await (load recording_service ''c'') (SafeServiceWrapper []))" "[]"]
  by (simp add: await_def load_eq dispose_eq process_eq recording_service_def)

end
